theory Spec2Isabelle
  imports Main "HOL-Library.Word"
begin

unbundle bit_operations_syntax

section \<open>The mock server of main.go\<close>

text \<open>
  The program reads a YAML declaration \<^verbatim>\<open>./config.yaml\<close>, registers one gin handler per
  endpoint, subscribes an fsnotify watcher to the declaration and to the response files,
  and then serves requests while a goroutine re-reads the declaration on Write events.

  What the program calls in the operating system and in its libraries is a parameter of
  the model, the record \<open>world\<close>: the content of the disk, the YAML parser and the
  results of the watcher's calls. A world is the environment at one moment; every step
  of the model is given the world of its moment, so files may change between steps.
\<close>

subsection \<open>Data of the declaration\<close>

record Endpoint =
  Path :: string
  Method :: string
  ResponseFile :: string

record Service =
  Name :: string
  BasePath :: string
  Endpoints :: "Endpoint list"

record Config =
  Services :: "Service list"

text \<open>A Go \<^verbatim>\<open>error\<close> value, by the text that \<^verbatim>\<open>err.Error()\<close> and \<^verbatim>\<open>%v\<close> print.\<close>

datatype error = Err (message: string)

record world =
  ReadFile :: "string \<Rightarrow> error + string"  \<comment> \<open>\<^verbatim>\<open>ioutil.ReadFile\<close>\<close>
  Abs :: "string \<Rightarrow> error + string"  \<comment> \<open>\<^verbatim>\<open>filepath.Abs\<close>\<close>
  Unmarshal :: "string \<Rightarrow> error + Config"  \<comment> \<open>\<^verbatim>\<open>yaml.Unmarshal\<close> into a fresh Config\<close>
  NewWatcher :: "error option"  \<comment> \<open>\<^verbatim>\<open>fsnotify.NewWatcher\<close>: the error, if any\<close>
  WatcherAdd :: "string \<Rightarrow> error option"  \<comment> \<open>\<^verbatim>\<open>watcher.Add\<close>: the error, if any\<close>
  Run :: "error option"  \<comment> \<open>\<^verbatim>\<open>r.Run(":8080")\<close>: the error it returns with, if it returns\<close>

subsection \<open>loadConfig and readJSONFile\<close>

definition loadConfig :: "world \<Rightarrow> string \<Rightarrow> error + Config" where
  "loadConfig w filename =
     (case ReadFile w filename of
        Inl err \<Rightarrow> Inl err
      | Inr data \<Rightarrow>
          (case Unmarshal w data of
             Inl err \<Rightarrow> Inl err
           | Inr config \<Rightarrow> Inr config))"

definition readJSONFile :: "world \<Rightarrow> string \<Rightarrow> error + string" where
  "readJSONFile w filePath =
     (case Abs w filePath of
        Inl err \<Rightarrow> Inl err
      | Inr absPath \<Rightarrow>
          (case ReadFile w absPath of
             Inl err \<Rightarrow> Inl err
           | Inr data \<Rightarrow> Inr data))"

subsection \<open>The router\<close>

text \<open>
  The gin engine is the list of its registered routes, in registration order. A route is
  the method and the path it was registered under and the \<^verbatim>\<open>responseFile\<close> that the
  handler closure captured when it was created: the closure of \<open>setupRouter\<close> reads no
  other variable.

  gin is a library, not part of this program, and the model keeps two facts of it. A
  request is routed by its method and its path; the model takes route patterns literally,
  so a request matches a route when its method and its path are the route's. And the
  engine refuses a second handler for a method and path that already have one: gin panics
  there, with the message built below.

  This is what gin does for the routes that \<open>plain_path\<close> (below) describes, and the
  properties of routing are stated for them. For other patterns gin does more than the
  model: it cleans the path before it registers it, it gives a meaning to segments that
  begin with a colon or a star (and panics when two such patterns conflict), and it
  answers with a redirect where the request's path with the trailing slash added or
  removed has a route.
\<close>

record Route =
  rmethod :: string
  rpath :: string
  rfile :: string

datatype panic = Panic string

definition matches :: "string \<Rightarrow> string \<Rightarrow> Route \<Rightarrow> bool" where
  "matches m p rt = (rmethod rt = m \<and> rpath rt = p)"

definition addRoute :: "string \<Rightarrow> string \<Rightarrow> string \<Rightarrow> Route list \<Rightarrow> panic + Route list" where
  "addRoute m p f r =
     (case find (matches m p) r of
        Some _ \<Rightarrow> Inl (Panic (''handlers are already registered for path '' @ [CHR 0x27] @ p @ [CHR 0x27]))
      | None \<Rightarrow> Inr (r @ [\<lparr>rmethod = m, rpath = p, rfile = f\<rparr>]))"

text \<open>The body of the inner loop of \<open>setupRouter\<close>: the switch has no default case.\<close>

definition register_endpoint :: "string \<Rightarrow> Endpoint \<Rightarrow> Route list \<Rightarrow> panic + Route list" where
  "register_endpoint basePath endpoint r =
     (let fullPath = basePath @ Path endpoint;
          responseFile = ResponseFile endpoint
      in if Method endpoint = ''GET'' then addRoute ''GET'' fullPath responseFile r
         else if Method endpoint = ''POST'' then addRoute ''POST'' fullPath responseFile r
         else Inr r)"

fun register_endpoints :: "string \<Rightarrow> Endpoint list \<Rightarrow> Route list \<Rightarrow> panic + Route list" where
  "register_endpoints basePath [] r = Inr r"
| "register_endpoints basePath (endpoint # rest) r =
     (case register_endpoint basePath endpoint r of
        Inl p \<Rightarrow> Inl p
      | Inr r' \<Rightarrow> register_endpoints basePath rest r')"

fun register_services :: "Service list \<Rightarrow> Route list \<Rightarrow> panic + Route list" where
  "register_services [] r = Inr r"
| "register_services (service # rest) r =
     (case register_endpoints (BasePath service) (Endpoints service) r of
        Inl p \<Rightarrow> Inl p
      | Inr r' \<Rightarrow> register_services rest r')"

definition setupRouter :: "Config \<Rightarrow> panic + Route list" where
  "setupRouter config = register_services (Services config) []"

subsection \<open>Serving a request\<close>

datatype response =
    Data nat string string  \<comment> \<open>\<^verbatim>\<open>c.Data(code, contentType, data)\<close>\<close>
  | JSON nat "(string \<times> string) list"  \<comment> \<open>\<^verbatim>\<open>c.JSON(code, gin.H{...})\<close>\<close>
  | NotFound  \<comment> \<open>no route: the framework's 404\<close>

text \<open>The handler closure, the same text for GET and for POST.\<close>

definition handler :: "world \<Rightarrow> string \<Rightarrow> response" where
  "handler w responseFile =
     (case readJSONFile w responseFile of
        Inl err \<Rightarrow> JSON 500 [(''error'', message err)]
      | Inr data \<Rightarrow> Data 200 ''application/json'' data)"

definition dispatch :: "world \<Rightarrow> Route list \<Rightarrow> string \<Rightarrow> string \<Rightarrow> response" where
  "dispatch w r m p =
     (case find (matches m p) r of
        None \<Rightarrow> NotFound
      | Some rt \<Rightarrow> handler w (rfile rt))"

subsection \<open>The routes for which the engine is modelled\<close>

text \<open>
  gin registers a route under \<^verbatim>\<open>joinPaths("/", fullPath)\<close>: the path joined to the root and
  cleaned as \<^verbatim>\<open>path.Join\<close> does (doubled slashes and the segments \<^verbatim>\<open>.\<close> and \<^verbatim>\<open>..\<close> go
  away), with a trailing slash kept. A plain path is one that this leaves as it is and
  that has no parameter or catch-all segment: it begins with a slash, none of its
  segments but possibly the last is empty, none is \<^verbatim>\<open>.\<close> or \<^verbatim>\<open>..\<close>, and it has no colon
  and no star. \<open>toggle_slash\<close> is the path gin would redirect a request to.
\<close>

fun split_slash :: "string \<Rightarrow> string list" where
  "split_slash [] = [[]]"
| "split_slash (c # cs) =
     (if c = CHR ''/'' then [] # split_slash cs
      else (case split_slash cs of
              [] \<Rightarrow> [[c]]
            | seg # segs \<Rightarrow> (c # seg) # segs))"

definition plain_path :: "string \<Rightarrow> bool" where
  "plain_path p =
     ((case split_slash p of
         [] \<Rightarrow> False
       | first # rest \<Rightarrow>
           first = [] \<and> rest \<noteq> [] \<and>
           list_all (\<lambda>seg. seg \<noteq> [] \<and> seg \<noteq> ''.'' \<and> seg \<noteq> ''..'') (butlast rest) \<and>
           last rest \<noteq> ''.'' \<and> last rest \<noteq> ''..'') \<and>
      CHR '':'' \<notin> set p \<and> CHR ''*'' \<notin> set p)"


subsection \<open>The process: main and the watcher goroutine\<close>

text \<open>
  The state of the running process: the Config that \<open>config\<close> points to, the engine,
  the paths the watcher holds a subscription for, what the program has printed through
  the \<^verbatim>\<open>log\<close> package, and whether the watcher goroutine is still in its loop.
\<close>

record server =
  config :: Config
  router :: "Route list"
  watched :: "string set"
  logs :: "string list"
  watching :: bool

datatype proc =
    Running server
  | Fatal string  \<comment> \<open>\<^verbatim>\<open>log.Fatalf\<close>: the message, then exit\<close>
  | Panicked panic
  | Returned  \<comment> \<open>\<^verbatim>\<open>main\<close> returned\<close>

definition configFile :: string where
  "configFile = ''./config.yaml''"

definition response_files :: "Config \<Rightarrow> string list" where
  "response_files cfg =
     concat (map (\<lambda>service. map ResponseFile (Endpoints service)) (Services cfg))"

text \<open>The two subscription steps of \<open>main\<close>; a failed \<^verbatim>\<open>watcher.Add\<close> is logged and skipped.\<close>

definition watch_config :: "world \<Rightarrow> string set \<times> string list \<Rightarrow> string set \<times> string list" where
  "watch_config w acc =
     (case WatcherAdd w configFile of
        Some err \<Rightarrow> (fst acc, snd acc @ [''Failed to watch config file: '' @ message err])
      | None \<Rightarrow> (insert configFile (fst acc), snd acc))"

fun watch_files :: "world \<Rightarrow> string list \<Rightarrow> string set \<times> string list \<Rightarrow> string set \<times> string list" where
  "watch_files w [] acc = acc"
| "watch_files w (f # fs) acc =
     (case WatcherAdd w f of
        Some err \<Rightarrow>
          watch_files w fs
            (fst acc, snd acc @ [''Failed to watch response file '' @ f @ '': '' @ message err])
      | None \<Rightarrow> watch_files w fs (insert f (fst acc), snd acc))"

definition main :: "world \<Rightarrow> proc" where
  "main w =
     (case loadConfig w configFile of
        Inl err \<Rightarrow> Fatal (''Failed to load config: '' @ message err)
      | Inr cfg \<Rightarrow>
          (case setupRouter cfg of
             Inl p \<Rightarrow> Panicked p
           | Inr r \<Rightarrow>
               (case NewWatcher w of
                  Some err \<Rightarrow> Fatal (''Failed to create watcher: '' @ message err)
                | None \<Rightarrow>
                    (let acc = watch_files w (response_files cfg) (watch_config w ({}, []))
                     in case Run w of
                          Some err \<Rightarrow> Returned
                        | None \<Rightarrow>
                            Running \<lparr>config = cfg, router = r, watched = fst acc,
                                     logs = snd acc, watching = True\<rparr>))))"

text \<open>The bits of \<^verbatim>\<open>fsnotify.Op\<close>.\<close>

definition Create :: "32 word" where "Create = 1"
definition Write :: "32 word" where "Write = 2"
definition Remove :: "32 word" where "Remove = 4"
definition Rename :: "32 word" where "Rename = 8"
definition Chmod :: "32 word" where "Chmod = 16"

text \<open>What the goroutine's \<^verbatim>\<open>select\<close> can receive.\<close>

datatype watcher_msg =
    Event "32 word" string  \<comment> \<open>a value of \<^verbatim>\<open>watcher.Events\<close>: Op and Name\<close>
  | EventsClosed
  | WatcherError error  \<comment> \<open>a value of \<^verbatim>\<open>watcher.Errors\<close>\<close>
  | ErrorsClosed

text \<open>One iteration of the goroutine's loop.\<close>

definition watcher_step :: "world \<Rightarrow> server \<Rightarrow> watcher_msg \<Rightarrow> server" where
  "watcher_step w s m =
     (case m of
        Event op name \<Rightarrow>
          if op AND Write = Write then
            (let s1 = s\<lparr>logs := logs s @ [''File modified: '' @ name]\<rparr>
             in case loadConfig w configFile of
                  Inl err \<Rightarrow> s1\<lparr>logs := logs s1 @ [''Failed to reload config: '' @ message err]\<rparr>
                | Inr newConfig \<Rightarrow> s1\<lparr>config := newConfig\<rparr>)
          else s
      | EventsClosed \<Rightarrow> s\<lparr>watching := False\<rparr>
      | WatcherError err \<Rightarrow> s\<lparr>logs := logs s @ [''Watcher error: '' @ message err]\<rparr>
      | ErrorsClosed \<Rightarrow> s\<lparr>watching := False\<rparr>)"

text \<open>
  The goroutine and the request handlers run concurrently. One step of the model is one
  message handled by the goroutine (ignored once the goroutine has returned) or one
  request answered, and a run is an interleaving of such steps, each in the world of its
  moment. The lock \<^verbatim>\<open>configLock\<close> is taken by the goroutine alone and no handler reads
  the Config, so the steps do not overlap in what they read and write. A process that
  has ended stays so.

  The program subscribes with \<^verbatim>\<open>watcher.Add\<close> and never calls \<^verbatim>\<open>watcher.Remove\<close>, but
  fsnotify itself ends a subscription, as when the watched file is removed. When it does
  so is the library's matter: the model has a step of its own for it, \<open>Unwatch\<close>, that
  may come at any moment and for any path.
\<close>

datatype input =
    Notify watcher_msg
  | Request string string  \<comment> \<open>method and path\<close>
  | Unwatch string  \<comment> \<open>fsnotify drops its subscription for the path\<close>

fun step :: "world \<Rightarrow> proc \<Rightarrow> input \<Rightarrow> proc \<times> response option" where
  "step w (Running s) (Notify m) =
     (Running (if watching s then watcher_step w s m else s), None)"
| "step w (Running s) (Request m p) = (Running s, Some (dispatch w (router s) m p))"
| "step w (Running s) (Unwatch p) = (Running (s\<lparr>watched := watched s - {p}\<rparr>), None)"
| "step w pr i = (pr, None)"

fun run :: "proc \<Rightarrow> (world \<times> input) list \<Rightarrow> proc" where
  "run pr [] = pr"
| "run pr ((w, i) # rest) = run (fst (step w pr i)) rest"

subsection \<open>What the router holds, as a function of the declaration\<close>

text \<open>
  The routes that \<open>setupRouter\<close> registers for a declaration when no registration is
  refused, written without the loop: the endpoints whose method is GET or POST, in
  declaration order. \<open>fresh r rs\<close> says that the routes \<open>rs\<close> can be added to the
  engine \<open>r\<close> one after the other without a refusal.
\<close>

definition supported :: "Endpoint \<Rightarrow> bool" where
  "supported endpoint = (Method endpoint = ''GET'' \<or> Method endpoint = ''POST'')"

definition endpoint_route :: "string \<Rightarrow> Endpoint \<Rightarrow> Route" where
  "endpoint_route basePath endpoint =
     \<lparr>rmethod = Method endpoint, rpath = basePath @ Path endpoint, rfile = ResponseFile endpoint\<rparr>"

definition service_routes :: "Service \<Rightarrow> Route list" where
  "service_routes service =
     map (endpoint_route (BasePath service)) (filter supported (Endpoints service))"

definition config_routes :: "Config \<Rightarrow> Route list" where
  "config_routes cfg = concat (map service_routes (Services cfg))"

definition route_key :: "Route \<Rightarrow> string \<times> string" where
  "route_key rt = (rmethod rt, rpath rt)"

definition drop_unsupported :: "Config \<Rightarrow> Config" where
  "drop_unsupported cfg =
     cfg\<lparr>Services :=
       map (\<lambda>service. service\<lparr>Endpoints := filter supported (Endpoints service)\<rparr>) (Services cfg)\<rparr>"

definition fresh :: "Route list \<Rightarrow> Route list \<Rightarrow> bool" where
  "fresh r rs \<longleftrightarrow>
     distinct (map route_key rs) \<and> set (map route_key r) \<inter> set (map route_key rs) = {}"

text \<open>
  The lines that the subscription loop of \<open>main\<close> logs, written without the loop: one
  line for each \<^verbatim>\<open>watcher.Add\<close> that fails, in the order of the calls.
\<close>

definition watch_failures :: "world \<Rightarrow> Config \<Rightarrow> string list" where
  "watch_failures w cfg =
     (case WatcherAdd w configFile of
        Some err \<Rightarrow> [''Failed to watch config file: '' @ message err]
      | None \<Rightarrow> []) @
     concat (map (\<lambda>f. case WatcherAdd w f of
                         Some err \<Rightarrow> [''Failed to watch response file '' @ f @ '': '' @ message err]
                       | None \<Rightarrow> [])
               (response_files cfg))"

subsection \<open>Example declarations and worlds\<close>

text \<open>
  A small disk under \<^verbatim>\<open>/srv\<close>, the working directory, given as a list of absolute paths
  with their contents. The example parser knows four declarations and rejects every
  other text; a subscription fails for a file that does not exist.
\<close>

definition ok_body :: string where
  \<open>ok_body = ''{"ok":true}''\<close>

definition pong_body :: string where
  \<open>pong_body = ''{"pong":1}''\<close>

definition decl_ping :: string where
  "decl_ping = ''services: [{name: mock, basePath: /api, endpoints: [{path: /ping, method: GET, responseFile: ping.json}]}]''"

definition cfg_ping :: Config where
  "cfg_ping = \<lparr>Services = [\<lparr>Name = ''mock'', BasePath = ''/api'', Endpoints =
      [\<lparr>Path = ''/ping'', Method = ''GET'', ResponseFile = ''ping.json''\<rparr>]\<rparr>]\<rparr>"

definition decl_pong :: string where
  "decl_pong = ''services: [{name: mock, basePath: /api, endpoints: [{path: /ping, method: GET, responseFile: pong.json}, {path: /echo, method: POST, responseFile: echo.json}]}]''"

definition cfg_pong :: Config where
  "cfg_pong = \<lparr>Services = [\<lparr>Name = ''mock'', BasePath = ''/api'', Endpoints =
      [\<lparr>Path = ''/ping'', Method = ''GET'', ResponseFile = ''pong.json''\<rparr>,
       \<lparr>Path = ''/echo'', Method = ''POST'', ResponseFile = ''echo.json''\<rparr>]\<rparr>]\<rparr>"

definition decl_dup :: string where
  "decl_dup = ''services: [{name: mock, basePath: /api, endpoints: [{path: /ping, method: GET, responseFile: a.json}, {path: /ping, method: GET, responseFile: b.json}]}]''"

definition cfg_dup :: Config where
  "cfg_dup = \<lparr>Services = [\<lparr>Name = ''mock'', BasePath = ''/api'', Endpoints =
      [\<lparr>Path = ''/ping'', Method = ''GET'', ResponseFile = ''a.json''\<rparr>,
       \<lparr>Path = ''/ping'', Method = ''GET'', ResponseFile = ''b.json''\<rparr>]\<rparr>]\<rparr>"

definition decl_put :: string where
  "decl_put = ''services: [{name: mock, basePath: /api, endpoints: [{path: /item, method: PUT, responseFile: item.json}, {path: /ping, method: GET, responseFile: ping.json}]}]''"

definition cfg_put :: Config where
  "cfg_put = \<lparr>Services = [\<lparr>Name = ''mock'', BasePath = ''/api'', Endpoints =
      [\<lparr>Path = ''/item'', Method = ''PUT'', ResponseFile = ''item.json''\<rparr>,
       \<lparr>Path = ''/ping'', Method = ''GET'', ResponseFile = ''ping.json''\<rparr>]\<rparr>]\<rparr>"

definition example_yaml :: "string \<Rightarrow> error + Config" where
  "example_yaml d =
     (if d = decl_ping then Inr cfg_ping
      else if d = decl_pong then Inr cfg_pong
      else if d = decl_dup then Inr cfg_dup
      else if d = decl_put then Inr cfg_put
      else Inl (Err ''yaml: did not find expected node content''))"

definition resolve :: "string \<Rightarrow> string" where
  "resolve p =
     (if take 1 p = ''/'' then p
      else ''/srv/'' @ (if take 2 p = ''./'' then drop 2 p else p))"

definition disk_world :: "(string \<times> string) list \<Rightarrow> world" where
  "disk_world disk =
     \<lparr>ReadFile = (\<lambda>p. case map_of disk (resolve p) of
                        None \<Rightarrow> Inl (Err (''open '' @ p @ '': no such file or directory''))
                      | Some d \<Rightarrow> Inr d),
      Abs = (\<lambda>p. Inr (resolve p)),
      Unmarshal = example_yaml,
      NewWatcher = None,
      WatcherAdd = (\<lambda>p. case map_of disk (resolve p) of
                          None \<Rightarrow> Some (Err ''no such file or directory'')
                        | Some d \<Rightarrow> None),
      Run = None\<rparr>"

definition world_ping :: world where
  "world_ping = disk_world [(''/srv/config.yaml'', decl_ping), (''/srv/ping.json'', ok_body)]"

definition world_pong :: world where
  "world_pong = disk_world [(''/srv/config.yaml'', decl_pong), (''/srv/ping.json'', ok_body),
     (''/srv/pong.json'', pong_body), (''/srv/echo.json'', ''{}'')]"

definition world_bad :: world where
  "world_bad = disk_world [(''/srv/config.yaml'', ''services: [''), (''/srv/ping.json'', ok_body)]"

definition world_gone :: world where
  "world_gone = disk_world [(''/srv/config.yaml'', decl_ping)]"

definition world_dup :: world where
  "world_dup = disk_world [(''/srv/config.yaml'', decl_dup), (''/srv/a.json'', ''{}''),
     (''/srv/b.json'', ''{}'')]"

definition world_put :: world where
  "world_put = disk_world [(''/srv/config.yaml'', decl_put), (''/srv/item.json'', ''{}''),
     (''/srv/ping.json'', ok_body)]"

definition world_put_noitem :: world where
  "world_put_noitem = disk_world [(''/srv/config.yaml'', decl_put), (''/srv/ping.json'', ok_body)]"

definition route_ping :: Route where
  "route_ping = \<lparr>rmethod = ''GET'', rpath = ''/api/ping'', rfile = ''ping.json''\<rparr>"

definition server_ping :: server where
  "server_ping = \<lparr>config = cfg_ping, router = [route_ping],
     watched = {''./config.yaml'', ''ping.json''}, logs = [], watching = True\<rparr>"

definition write_config :: input where
  "write_config = Notify (Event Write ''./config.yaml'')"

definition duplicate_panic :: panic where
  "duplicate_panic =
     Panic (''handlers are already registered for path '' @ [CHR 0x27] @ ''/api/ping'' @ [CHR 0x27])"

definition server_gone :: server where
  "server_gone = \<lparr>config = cfg_ping, router = [route_ping], watched = {''./config.yaml''},
     logs = [''Failed to watch response file ping.json: no such file or directory''],
     watching = True\<rparr>"

definition server_stale :: server where
  "server_stale = server_gone\<lparr>config := cfg_pong,
     logs := logs server_gone @ [''File modified: ./config.yaml'']\<rparr>"

definition server_put :: server where
  "server_put = \<lparr>config = cfg_put, router = [route_ping],
     watched = {''./config.yaml'', ''item.json'', ''ping.json''}, logs = [], watching = True\<rparr>"

definition server_put_noitem :: server where
  "server_put_noitem = \<lparr>config = cfg_put, router = [route_ping],
     watched = {''./config.yaml'', ''ping.json''},
     logs = [''Failed to watch response file item.json: no such file or directory''],
     watching = True\<rparr>"

section \<open>Properties of the router\<close>

lemma find_matches_None: "find (matches m p) r = None \<longleftrightarrow> (m, p) \<notin> route_key ` set r"
  by (induction r) (auto simp: matches_def route_key_def)

lemma addRoute_Inr:
  "addRoute m p f r = Inr r' \<longleftrightarrow>
     (m, p) \<notin> route_key ` set r \<and> r' = r @ [\<lparr>rmethod = m, rpath = p, rfile = f\<rparr>]"
  using find_matches_None [of m p r]
  by (auto simp: addRoute_def split: option.splits)

lemma register_endpoint_supported:
  "supported e \<Longrightarrow>
     register_endpoint b e r = addRoute (Method e) (b @ Path e) (ResponseFile e) r"
  by (auto simp: register_endpoint_def supported_def Let_def)

lemma register_endpoint_unsupported: "\<not> supported e \<Longrightarrow> register_endpoint b e r = Inr r"
  by (simp add: register_endpoint_def supported_def Let_def)

lemma register_endpoint_Inr:
  "register_endpoint b e r = Inr r' \<longleftrightarrow>
     (if supported e
      then route_key (endpoint_route b e) \<notin> route_key ` set r \<and> r' = r @ [endpoint_route b e]
      else r' = r)"
  by (auto simp: register_endpoint_supported register_endpoint_unsupported addRoute_Inr
      endpoint_route_def route_key_def)

lemma fresh_Nil: "fresh r []"
  by (simp add: fresh_def)

lemma fresh_Cons:
  "fresh r (rt # rs) \<longleftrightarrow> route_key rt \<notin> route_key ` set r \<and> fresh (r @ [rt]) rs"
  unfolding fresh_def by auto

lemma fresh_append: "fresh r (xs @ ys) \<longleftrightarrow> fresh r xs \<and> fresh (r @ xs) ys"
  unfolding fresh_def by auto

lemma register_endpoints_Inr:
  "register_endpoints b es r = Inr r' \<longleftrightarrow>
     r' = r @ map (endpoint_route b) (filter supported es) \<and>
     fresh r (map (endpoint_route b) (filter supported es))"
proof (induction es arbitrary: r)
  case Nil
  then show ?case by (auto simp: fresh_Nil)
next
  case (Cons e es)
  show ?case
  proof (cases "register_endpoint b e r")
    case (Inl p)
    then have neg: "\<And>x. register_endpoint b e r \<noteq> Inr x" by simp
    have "supported e \<and> route_key (endpoint_route b e) \<in> route_key ` set r"
      using neg [of "r @ [endpoint_route b e]"] neg [of r]
      by (auto simp: register_endpoint_Inr split: if_splits)
    then show ?thesis using Inl
      by (simp add: fresh_Cons)
  next
    case (Inr r1)
    then have unroll: "register_endpoints b (e # es) r = register_endpoints b es r1"
      by simp
    have r1: "if supported e
        then route_key (endpoint_route b e) \<notin> route_key ` set r \<and> r1 = r @ [endpoint_route b e]
        else r1 = r"
      using Inr by (simp only: register_endpoint_Inr)
    show ?thesis unfolding unroll Cons.IH [of r1] using r1
      by (auto simp: fresh_Cons split: if_splits)
  qed
qed

lemma register_services_Inr:
  "register_services ss r = Inr r' \<longleftrightarrow>
     r' = r @ concat (map service_routes ss) \<and> fresh r (concat (map service_routes ss))"
proof (induction ss arbitrary: r)
  case Nil
  then show ?case by (auto simp: fresh_Nil)
next
  case (Cons s ss)
  show ?case
  proof (cases "register_endpoints (BasePath s) (Endpoints s) r")
    case (Inl p)
    then have "register_endpoints (BasePath s) (Endpoints s) r \<noteq> Inr (r @ service_routes s)"
      by simp
    then have "\<not> fresh r (service_routes s)"
      by (simp add: register_endpoints_Inr service_routes_def)
    then show ?thesis using Inl
      by (simp add: fresh_append)
  next
    case (Inr r1)
    then have unroll: "register_services (s # ss) r = register_services ss r1"
      by simp
    have r1: "r1 = r @ service_routes s \<and> fresh r (service_routes s)"
      using Inr by (simp add: register_endpoints_Inr service_routes_def)
    show ?thesis unfolding unroll Cons.IH [of r1] using r1
      by (auto simp: fresh_append)
  qed
qed

lemma setupRouter_Inr:
  "setupRouter cfg = Inr r \<longleftrightarrow>
     r = config_routes cfg \<and> distinct (map route_key (config_routes cfg))"
  by (auto simp: setupRouter_def register_services_Inr config_routes_def fresh_def)

lemma find_matches_distinct:
  "distinct (map route_key r) \<Longrightarrow> rt \<in> set r \<Longrightarrow>
     find (matches (rmethod rt) (rpath rt)) r = Some rt"
  by (induction r) (auto simp: matches_def route_key_def image_iff)

section \<open>Properties of the process\<close>

lemma watcher_step_keeps:
  "router (watcher_step w s m) = router s \<and> watched (watcher_step w s m) = watched s"
  by (auto simp: watcher_step_def Let_def split: watcher_msg.splits sum.splits)

lemma notify_keeps_watched:
  "\<exists>s'. step w (Running s) (Notify m) = (Running s', None) \<and> watched s' = watched s"
  by (simp add: watcher_step_keeps)

lemma step_Running:
  "\<exists>s'. fst (step w (Running s) i) = Running s' \<and> router s' = router s \<and>
        watched s' \<subseteq> watched s"
  by (cases i) (auto simp: watcher_step_keeps)

lemma run_Running:
  "\<exists>s'. run (Running s) tr = Running s' \<and> router s' = router s \<and> watched s' \<subseteq> watched s"
proof (induction tr arbitrary: s)
  case Nil
  then show ?case by simp
next
  case (Cons a tr)
  obtain w i where a: "a = (w, i)" by (cases a)
  obtain s1 where s1: "fst (step w (Running s) i) = Running s1" "router s1 = router s"
      "watched s1 \<subseteq> watched s"
    using step_Running [of w s i] by blast
  obtain s2 where "run (Running s1) tr = Running s2" "router s2 = router s1"
      "watched s2 \<subseteq> watched s1"
    using Cons.IH [of s1] by blast
  then show ?case using s1 a by auto
qed

lemma watch_files_fst:
  "fst (watch_files w fs acc) = fst acc \<union> {f \<in> set fs. WatcherAdd w f = None}"
  by (induction fs arbitrary: acc) (auto split: option.splits)

lemma watch_files_snd:
  "snd (watch_files w fs acc) =
     snd acc @
     concat (map (\<lambda>f. case WatcherAdd w f of
                         Some err \<Rightarrow> [''Failed to watch response file '' @ f @ '': '' @ message err]
                       | None \<Rightarrow> [])
               fs)"
  by (induction fs arbitrary: acc) (auto split: option.splits)

lemma watch_config_fst:
  "fst (watch_config w acc) = fst acc \<union> {f \<in> {configFile}. WatcherAdd w f = None}"
  by (auto simp: watch_config_def split: option.splits)

lemma watch_config_snd:
  "snd (watch_config w acc) =
     snd acc @
     (case WatcherAdd w configFile of
        Some err \<Rightarrow> [''Failed to watch config file: '' @ message err]
      | None \<Rightarrow> [])"
  by (simp add: watch_config_def split: option.splits)

lemma main_start:
  assumes "loadConfig w configFile = Inr cfg" and "setupRouter cfg = Inr r"
    and "NewWatcher w = None" and "Run w = None"
  shows "main w = Running
           \<lparr>config = cfg, router = r,
            watched = {f \<in> insert configFile (set (response_files cfg)). WatcherAdd w f = None},
            logs = watch_failures w cfg, watching = True\<rparr>"
  using assms
  by (auto simp: main_def Let_def watch_files_fst watch_config_fst watch_files_snd
      watch_config_snd watch_failures_def)

lemma main_Running:
  assumes "main w = Running s"
  shows "\<exists>cfg. loadConfig w configFile = Inr cfg \<and> setupRouter cfg = Inr (router s) \<and>
           config s = cfg \<and> watching s \<and>
           watched s = {f \<in> insert configFile (set (response_files cfg)). WatcherAdd w f = None} \<and>
           logs s = watch_failures w cfg"
  using assms
  by (auto simp: main_def Let_def watch_files_fst watch_config_fst watch_files_snd
      watch_config_snd watch_failures_def split: sum.splits option.splits)

lemma register_endpoints_filter:
  "register_endpoints b (filter supported es) r = register_endpoints b es r"
  by (induction es arbitrary: r)
    (auto simp: register_endpoint_unsupported split: sum.splits)

lemma register_services_filter:
  "register_services (map (\<lambda>s. s\<lparr>Endpoints := filter supported (Endpoints s)\<rparr>) ss) r =
     register_services ss r"
  by (induction ss arbitrary: r) (auto simp: register_endpoints_filter split: sum.splits)

lemma config_routes_supported:
  "rt \<in> set (config_routes cfg) \<Longrightarrow> rmethod rt = ''GET'' \<or> rmethod rt = ''POST''"
  by (auto simp: config_routes_def service_routes_def endpoint_route_def supported_def)




lemma served_route:
  assumes "main w0 = Running s0" and "run (Running s0) tr = Running s" and "rt \<in> set (router s)"
  shows "step w (Running s) (Request (rmethod rt) (rpath rt)) =
           (Running s, Some (handler w (rfile rt)))"
proof -
  obtain s' where "run (Running s0) tr = Running s'" "router s' = router s0"
    using run_Running [of s0 tr] by blast
  then have same: "router s = router s0" using assms(2) by simp
  obtain cfg where "setupRouter cfg = Inr (router s0)"
    using main_Running [OF assms(1)] by blast
  then have "distinct (map route_key (router s))"
    using same by (auto simp: setupRouter_Inr)
  then have "find (matches (rmethod rt) (rpath rt)) (router s) = Some rt"
    using assms(3) by (rule find_matches_distinct)
  then show ?thesis by (simp add: dispatch_def)
qed

lemma drop_unsupported_same: "setupRouter (drop_unsupported cfg) = setupRouter cfg"
  by (simp add: setupRouter_def drop_unsupported_def register_services_filter)

section \<open>The examples, evaluated\<close>

lemmas example_defs = server_gone_def server_stale_def server_put_def server_put_noitem_def
  world_put_noitem_def world_ping_def world_pong_def world_bad_def world_gone_def world_dup_def world_put_def
  disk_world_def resolve_def example_yaml_def decl_ping_def decl_pong_def decl_dup_def decl_put_def
  cfg_ping_def cfg_pong_def cfg_dup_def cfg_put_def ok_body_def pong_body_def
  route_ping_def server_ping_def write_config_def duplicate_panic_def

lemmas code_defs = main_def loadConfig_def readJSONFile_def setupRouter_def register_endpoint_def
  addRoute_def matches_def configFile_def response_files_def watch_config_def
  watcher_step_def dispatch_def handler_def Write_def

lemma main_world_ping: "main world_ping = Running server_ping"
  by (auto simp add: code_defs example_defs)


lemma load_world_pong: "loadConfig world_pong configFile = Inr cfg_pong"
  by (simp add: code_defs example_defs)

lemma load_world_bad:
  "loadConfig world_bad configFile = Inl (Err ''yaml: did not find expected node content'')"
  by (simp add: code_defs example_defs)

lemma load_world_dup: "loadConfig world_dup configFile = Inr cfg_dup"
  by (simp add: code_defs example_defs)

lemma load_world_put: "loadConfig world_put configFile = Inr cfg_put"
  by (simp add: code_defs example_defs)

lemma run_reload_pong:
  "run (Running server_ping) [(world_pong, write_config)] =
     Running (server_ping\<lparr>config := cfg_pong, logs := [''File modified: ./config.yaml'']\<rparr>)"
  by (simp add: write_config_def watcher_step_def load_world_pong Write_def server_ping_def)

lemma read_ping_world_pong: "readJSONFile world_pong ''ping.json'' = Inr ok_body"
  by (simp add: code_defs example_defs)

lemma read_ping_world_gone:
  "readJSONFile world_gone ''ping.json'' =
     Inl (Err ''open /srv/ping.json: no such file or directory'')"
  by (simp add: code_defs example_defs)

lemma main_world_gone: "main world_gone = Running server_gone"
  by (auto simp add: code_defs example_defs server_gone_def)

lemma main_world_put: "main world_put = Running server_put"
  by (auto simp add: code_defs example_defs server_put_def)

lemma main_world_put_noitem: "main world_put_noitem = Running server_put_noitem"
  by (auto simp add: code_defs example_defs)

lemma load_world_gone: "loadConfig world_gone configFile = Inr cfg_ping"
  by (simp add: code_defs example_defs)

lemma load_world_put_noitem: "loadConfig world_put_noitem configFile = Inr cfg_put"
  by (simp add: code_defs example_defs)


lemma setupRouter_cfg_put: "setupRouter cfg_put = Inr [route_ping]"
  by (simp add: setupRouter_def register_endpoint_def addRoute_def matches_def cfg_put_def
      route_ping_def)

lemma plain_api_ping: "plain_path ''/api/ping''"
  by (simp add: plain_path_def)

section \<open>The claims\<close>

text \<open>
  C1. After a successful reload the change of the declaration is visible to request
  handling: a route whose responseFile changed, or that is new, is served according to
  the reloaded declaration. The program does not do this. Evaluated on the example: the
  process starts on the declaration that serves GET /api/ping from ping.json; the
  declaration is rewritten to serve it from pong.json and to add POST /api/echo, and a
  Write event is delivered. The reload succeeds (the Config now is the new declaration,
  from which \<open>setupRouter\<close> would build the two new routes, both readable), but the engine
  still holds the handler bound to ping.json: GET /api/ping answers with the bytes of
  ping.json and POST /api/echo is not found.
\<close>

theorem stale_router_after_reload:
  "run (main world_ping) [(world_pong, write_config)] =
     Running (server_ping\<lparr>config := cfg_pong, logs := [''File modified: ./config.yaml'']\<rparr>) \<and>
   setupRouter cfg_pong =
     Inr [\<lparr>rmethod = ''GET'', rpath = ''/api/ping'', rfile = ''pong.json''\<rparr>,
          \<lparr>rmethod = ''POST'', rpath = ''/api/echo'', rfile = ''echo.json''\<rparr>] \<and>
   handler world_pong ''pong.json'' = Data 200 ''application/json'' pong_body \<and>
   handler world_pong ''echo.json'' = Data 200 ''application/json'' ''{}'' \<and>
   snd (step world_pong (run (main world_ping) [(world_pong, write_config)])
          (Request ''GET'' ''/api/ping'')) = Some (Data 200 ''application/json'' ok_body) \<and>
   snd (step world_pong (run (main world_ping) [(world_pong, write_config)])
          (Request ''POST'' ''/api/echo'')) = Some NotFound"
proof -
  have r: "run (main world_ping) [(world_pong, write_config)] =
     Running (server_ping\<lparr>config := cfg_pong, logs := [''File modified: ./config.yaml'']\<rparr>)"
    by (simp only: main_world_ping run_reload_pong)
  have s: "setupRouter cfg_pong =
     Inr [\<lparr>rmethod = ''GET'', rpath = ''/api/ping'', rfile = ''pong.json''\<rparr>,
          \<lparr>rmethod = ''POST'', rpath = ''/api/echo'', rfile = ''echo.json''\<rparr>]"
    by (simp add: setupRouter_def register_endpoint_def addRoute_def matches_def cfg_pong_def)
  have h: "handler world_pong ''pong.json'' = Data 200 ''application/json'' pong_body"
    by (simp add: code_defs example_defs)
  have e: "handler world_pong ''echo.json'' = Data 200 ''application/json'' ''{}''"
    by (simp add: code_defs example_defs)
  have g: "snd (step world_pong (run (main world_ping) [(world_pong, write_config)])
          (Request ''GET'' ''/api/ping'')) = Some (Data 200 ''application/json'' ok_body)"
    unfolding r
    by (simp add: server_ping_def route_ping_def dispatch_def matches_def handler_def
        read_ping_world_pong)
  have p: "snd (step world_pong (run (main world_ping) [(world_pong, write_config)])
          (Request ''POST'' ''/api/echo'')) = Some NotFound"
    unfolding r by (simp add: server_ping_def route_ping_def dispatch_def matches_def)
  show ?thesis using r s h e g p by blast
qed

text \<open>
  C2. A reload whose \<open>loadConfig\<close> fails changes nothing but the log: the event and the
  error are logged, the Config, the engine and the subscriptions stay as they were, and
  the process keeps running.
\<close>

theorem failed_reload_keeps_table:
  assumes "watching s" and "op AND Write = Write" and "loadConfig w configFile = Inl err"
  shows "step w (Running s) (Notify (Event op name)) =
           (Running (s\<lparr>logs := logs s @ [''File modified: '' @ name,
                                         ''Failed to reload config: '' @ message err]\<rparr>), None)"
  using assms by (simp add: watcher_step_def)

theorem failed_reload_keeps_table_witness:
  "watching server_ping \<and> Write AND Write = Write \<and>
   loadConfig world_bad configFile = Inl (Err ''yaml: did not find expected node content'') \<and>
   step world_bad (Running server_ping) (Notify (Event Write ''./config.yaml'')) =
     (Running (server_ping\<lparr>logs :=
        [''File modified: ./config.yaml'',
         ''Failed to reload config: yaml: did not find expected node content'']\<rparr>), None)"
proof -
  have w: "watching server_ping" by (simp add: server_ping_def)
  have b: "Write AND Write = Write" by simp
  have l: "logs server_ping = []" by (simp add: server_ping_def)
  show ?thesis
    using failed_reload_keeps_table [OF w b load_world_bad, of "''./config.yaml''"] w b load_world_bad l
    by simp
qed

text \<open>
  C3, as claimed: a declaration with two endpoints of the same method and full path
  compiles, and the later one is served. On the code the second registration is refused
  by the engine with a panic, and \<open>main\<close> does not reach serving.
\<close>

theorem duplicate_route_panics:
  "loadConfig world_dup configFile = Inr cfg_dup \<and>
   setupRouter cfg_dup = Inl duplicate_panic \<and>
   main world_dup = Panicked duplicate_panic"
  by (simp add: code_defs example_defs)

text \<open>
  C3, amended: whenever two endpoints with a supported method compile to the same
  method and full path (whatever their response files), \<open>setupRouter\<close> ends in a panic
  and so does \<open>main\<close>; no router is produced.
\<close>

theorem duplicate_route_refused:
  assumes "loadConfig w configFile = Inr cfg"
    and "\<not> distinct (map route_key (config_routes cfg))"
  shows "(\<exists>p. setupRouter cfg = Inl p) \<and> (\<exists>p. main w = Panicked p)"
proof -
  have "\<And>r. setupRouter cfg \<noteq> Inr r"
    using assms(2) by (simp add: setupRouter_Inr)
  then obtain p where p: "setupRouter cfg = Inl p"
    by (cases "setupRouter cfg") auto
  then have "main w = Panicked p"
    using assms(1) by (simp add: main_def)
  with p show ?thesis by blast
qed

theorem duplicate_route_refused_witness:
  "loadConfig world_dup configFile = Inr cfg_dup \<and>
   \<not> distinct (map route_key (config_routes cfg_dup)) \<and>
   setupRouter cfg_dup = Inl duplicate_panic \<and> main world_dup = Panicked duplicate_panic"
proof -
  have d: "\<not> distinct (map route_key (config_routes cfg_dup))"
    by (simp add: config_routes_def service_routes_def endpoint_route_def supported_def
        route_key_def cfg_dup_def)
  obtain p q where "setupRouter cfg_dup = Inl p" "main world_dup = Panicked q"
    using duplicate_route_refused [OF load_world_dup d] by blast
  moreover have "setupRouter cfg_dup = Inl duplicate_panic"
    by (simp add: code_defs example_defs)
  ultimately show ?thesis using load_world_dup d
    by (simp add: main_def)
qed



text \<open>
  C6. When the response file of a registered route cannot be read at the time of the
  request, where the routes of the engine are plain paths, the answer is status 500 with
  the JSON object that maps "error" to the error's message; the process keeps running and
  its state, the route included, is what it was.
\<close>

theorem unreadable_file_500:
  assumes "main w0 = Running s0" and "run (Running s0) tr = Running s"
    and "\<forall>rt\<in>set (router s). plain_path (rpath rt)"
    and "rt \<in> set (router s)" and "readJSONFile w (rfile rt) = Inl err"
  shows "step w (Running s) (Request (rmethod rt) (rpath rt)) =
           (Running s, Some (JSON 500 [(''error'', message err)]))"
  using served_route [OF assms(1) assms(2) assms(4), of w] assms(5)
  by (simp add: handler_def)

theorem unreadable_file_500_witness:
  "main world_ping = Running server_ping \<and> run (Running server_ping) [] = Running server_ping \<and>
   router server_ping = [route_ping] \<and> rpath route_ping = ''/api/ping'' \<and>
   plain_path ''/api/ping'' \<and>
   readJSONFile world_gone (rfile route_ping) =
     Inl (Err ''open /srv/ping.json: no such file or directory'') \<and>
   step world_gone (Running server_ping) (Request ''GET'' ''/api/ping'') =
     (Running server_ping,
      Some (JSON 500 [(''error'', ''open /srv/ping.json: no such file or directory'')]))"
proof -
  have r: "run (Running server_ping) [] = Running server_ping" by simp
  have t: "router server_ping = [route_ping]" "rpath route_ping = ''/api/ping''"
    by (simp_all add: server_ping_def route_ping_def)
  have pl: "\<forall>rt\<in>set (router server_ping). plain_path (rpath rt)"
    using plain_api_ping t by simp
  have m: "route_ping \<in> set (router server_ping)" by (simp add: server_ping_def)
  have f: "readJSONFile world_gone (rfile route_ping) =
     Inl (Err ''open /srv/ping.json: no such file or directory'')"
    using read_ping_world_gone by (simp add: route_ping_def)
  show ?thesis
    using unreadable_file_500 [OF main_world_ping r pl m f] main_world_ping r t plain_api_ping f
    by (simp add: route_ping_def)
qed

text \<open>
  C4, as claimed: the watched paths always are the declaration file and the response
  files of the current table, recomputed at every successful reload, which adds the
  files newly referenced and removes those no longer referenced. On the code, first: the
  process starts while ping.json does not exist, so that its subscription fails; later
  ping.json exists and the declaration is rewritten to name pong.json and echo.json. After
  the successful reload pong.json, which is named by the current declaration and could be
  subscribed to, is not watched; the watched set is the declaration file alone, which is
  neither the set for the reloaded declaration nor the set for the routes of the engine.
  Second: the process starts with ping.json present; after the same reload ping.json,
  which the declaration no longer names, is still watched.
\<close>

theorem watch_set_not_recomputed:
  "run (main world_gone) [(world_pong, write_config)] = Running server_stale \<and>
   config server_stale = cfg_pong \<and>
   ''pong.json'' \<in> set (response_files (config server_stale)) \<and>
   WatcherAdd world_pong ''pong.json'' = None \<and>
   ''pong.json'' \<notin> watched server_stale \<and>
   watched server_stale \<noteq> insert configFile (set (response_files (config server_stale))) \<and>
   watched server_stale \<noteq> insert configFile (set (map rfile (router server_stale))) \<and>
   run (main world_ping) [(world_pong, write_config)] =
     Running (server_ping\<lparr>config := cfg_pong, logs := [''File modified: ./config.yaml'']\<rparr>) \<and>
   ''ping.json'' \<notin> set (response_files cfg_pong) \<and>
   ''ping.json'' \<in>
     watched (server_ping\<lparr>config := cfg_pong, logs := [''File modified: ./config.yaml'']\<rparr>)"
proof -
  have r: "run (main world_gone) [(world_pong, write_config)] = Running server_stale"
    unfolding main_world_gone
    by (simp add: write_config_def watcher_step_def load_world_pong Write_def server_gone_def
        server_stale_def)
  have c: "config server_stale = cfg_pong"
    by (simp add: server_stale_def)
  have f: "''pong.json'' \<in> set (response_files (config server_stale))"
    unfolding c by (simp add: response_files_def cfg_pong_def)
  have a: "WatcherAdd world_pong ''pong.json'' = None"
    by (simp add: world_pong_def disk_world_def resolve_def)
  have w: "watched server_stale = {''./config.yaml''}"
    by (simp add: server_stale_def server_gone_def)
  have n: "''pong.json'' \<notin> watched server_stale"
    unfolding w by simp
  have d: "watched server_stale \<noteq> insert configFile (set (response_files (config server_stale)))"
    using f n by auto
  have "''ping.json'' \<in> insert configFile (set (map rfile (router server_stale)))"
    by (simp add: server_stale_def server_gone_def route_ping_def)
  moreover have "''ping.json'' \<notin> watched server_stale"
    unfolding w by simp
  ultimately have e: "watched server_stale \<noteq> insert configFile (set (map rfile (router server_stale)))"
    by metis
  have r2: "run (main world_ping) [(world_pong, write_config)] =
     Running (server_ping\<lparr>config := cfg_pong, logs := [''File modified: ./config.yaml'']\<rparr>)"
    by (simp only: main_world_ping run_reload_pong)
  have k: "''ping.json'' \<notin> set (response_files cfg_pong)"
    by (simp add: response_files_def cfg_pong_def)
  have l: "''ping.json'' \<in>
     watched (server_ping\<lparr>config := cfg_pong, logs := [''File modified: ./config.yaml'']\<rparr>)"
    by (simp add: server_ping_def)
  show ?thesis using r c f a n d e r2 k l by blast
qed

text \<open>
  C4, amended: the subscriptions are made once, at startup, and a reload does not
  recompute them. At startup the program subscribes to the declaration file and to the
  responseFile of every endpoint of the startup declaration; a subscription that fails
  is logged and skipped. Afterwards the program adds no subscription and removes none:
  a message handled by the goroutine, a successful reload included, leaves the watched
  set as it is, and in every state the process reaches every watched path is one of
  those subscribed at startup. So a response file that only a later declaration names is
  not watched.
\<close>

theorem subscriptions_made_at_startup_only:
  assumes "loadConfig w0 configFile = Inr cfg" and "main w0 = Running s0"
    and "run (Running s0) tr = Running s"
  shows "watched s0 = {f \<in> insert configFile (set (response_files cfg)). WatcherAdd w0 f = None} \<and>
         logs s0 = watch_failures w0 cfg \<and>
         watched s \<subseteq> watched s0 \<and>
         (\<forall>w m. \<exists>s'. step w (Running s) (Notify m) = (Running s', None) \<and>
            watched s' = watched s)"
proof -
  obtain s' where "run (Running s0) tr = Running s'" "watched s' \<subseteq> watched s0"
    using run_Running [of s0 tr] by blast
  then have sub: "watched s \<subseteq> watched s0" using assms(3) by simp
  have start: "watched s0 =
      {f \<in> insert configFile (set (response_files cfg)). WatcherAdd w0 f = None} \<and>
      logs s0 = watch_failures w0 cfg"
    using main_Running [OF assms(2)] assms(1) by auto
  show ?thesis using start sub notify_keeps_watched [of _ s] by blast
qed

theorem subscriptions_made_at_startup_only_witness:
  "loadConfig world_gone configFile = Inr cfg_ping \<and> main world_gone = Running server_gone \<and>
   run (Running server_gone) [(world_pong, write_config), (world_pong, Unwatch ''./config.yaml'')] =
     Running (server_stale\<lparr>watched := {}\<rparr>) \<and>
   WatcherAdd world_gone ''ping.json'' = Some (Err ''no such file or directory'') \<and>
   watched server_gone = {''./config.yaml''} \<and>
   logs server_gone = [''Failed to watch response file ping.json: no such file or directory''] \<and>
   watch_failures world_gone cfg_ping =
     [''Failed to watch response file ping.json: no such file or directory''] \<and>
   watched (server_stale\<lparr>watched := {}\<rparr>) \<subseteq> watched server_gone \<and>
   (\<exists>s'. step world_pong (Running (server_stale\<lparr>watched := {}\<rparr>)) write_config =
            (Running s', None) \<and> watched s' = {})"
proof -
  have r: "run (Running server_gone)
      [(world_pong, write_config), (world_pong, Unwatch ''./config.yaml'')] =
     Running (server_stale\<lparr>watched := {}\<rparr>)"
    by (simp add: write_config_def watcher_step_def load_world_pong Write_def server_gone_def
        server_stale_def)
  note t = subscriptions_made_at_startup_only [OF load_world_gone main_world_gone r]
  have a: "WatcherAdd world_gone ''ping.json'' = Some (Err ''no such file or directory'')"
    by (simp add: world_gone_def disk_world_def resolve_def)
  have w: "watched server_gone = {''./config.yaml''}"
    "logs server_gone = [''Failed to watch response file ping.json: no such file or directory'']"
    by (simp_all add: server_gone_def)
  have l: "watch_failures world_gone cfg_ping =
     [''Failed to watch response file ping.json: no such file or directory'']"
    using t w by simp
  have "\<exists>s'. step world_pong (Running (server_stale\<lparr>watched := {}\<rparr>))
            (Notify (Event Write ''./config.yaml'')) = (Running s', None) \<and>
          watched s' = watched (server_stale\<lparr>watched := {}\<rparr>)"
    using t by blast
  then have n: "\<exists>s'. step world_pong (Running (server_stale\<lparr>watched := {}\<rparr>)) write_config =
            (Running s', None) \<and> watched s' = {}"
    by (simp add: write_config_def)
  show ?thesis using load_world_gone main_world_gone r a w l n by simp
qed

text \<open>
  C7, as claimed: an endpoint with an unsupported method is skipped and a warning is
  recorded. On the code nothing is recorded: the process started on the declaration with a
  PUT endpoint registers the GET route alone and has an empty log.
\<close>

theorem unsupported_method_no_warning:
  "loadConfig world_put configFile = Inr cfg_put \<and>
   map Method (concat (map Endpoints (Services cfg_put))) = [''PUT'', ''GET''] \<and>
   main world_put = Running server_put \<and>
   router server_put = [route_ping] \<and> rmethod route_ping = ''GET'' \<and>
   logs server_put = []"
  using load_world_put main_world_put
  by (simp add: cfg_put_def server_put_def route_ping_def)

text \<open>
  C7, amended: an endpoint whose method is neither GET nor POST is skipped and nothing
  is recorded for it. \<open>setupRouter\<close> gives the same result as on the declaration without
  these endpoints; when it succeeds the engine holds the routes of the GET and POST
  endpoints, in declaration order, and no other route. The process keeps running: when
  the declaration without these endpoints compiles and the watcher and the listener
  start, \<open>main\<close> reaches the running state, with that router. Its log then holds the
  lines of the failed subscriptions and no other line. (The program subscribes to the
  response file of every endpoint, a skipped one too, so such a line can name the file
  of a skipped endpoint; no line is about its method.)
\<close>

theorem unsupported_method_skipped:
  assumes "loadConfig w configFile = Inr cfg"
  shows "setupRouter cfg = setupRouter (drop_unsupported cfg) \<and>
         (setupRouter cfg = Inr r \<longrightarrow>
            r = config_routes cfg \<and>
            (\<forall>rt\<in>set r. rmethod rt = ''GET'' \<or> rmethod rt = ''POST'')) \<and>
         (setupRouter (drop_unsupported cfg) = Inr r \<and> NewWatcher w = None \<and> Run w = None \<longrightarrow>
            main w = Running
              \<lparr>config = cfg, router = r,
               watched = {f \<in> insert configFile (set (response_files cfg)). WatcherAdd w f = None},
               logs = watch_failures w cfg, watching = True\<rparr>)"
proof -
  have a: "setupRouter cfg = setupRouter (drop_unsupported cfg)"
    by (simp add: drop_unsupported_same)
  have b: "setupRouter cfg = Inr r \<longrightarrow>
      r = config_routes cfg \<and> (\<forall>rt\<in>set r. rmethod rt = ''GET'' \<or> rmethod rt = ''POST'')"
    using config_routes_supported [of _ cfg] by (auto simp: setupRouter_Inr)
  have c: "setupRouter (drop_unsupported cfg) = Inr r \<and> NewWatcher w = None \<and> Run w = None \<longrightarrow>
      main w = Running
        \<lparr>config = cfg, router = r,
         watched = {f \<in> insert configFile (set (response_files cfg)). WatcherAdd w f = None},
         logs = watch_failures w cfg, watching = True\<rparr>"
    using main_start [OF assms, of r] by (simp add: drop_unsupported_same)
  show ?thesis using a b c by blast
qed

theorem unsupported_method_skipped_witness:
  "loadConfig world_put_noitem configFile = Inr cfg_put \<and>
   map Method (concat (map Endpoints (Services cfg_put))) = [''PUT'', ''GET''] \<and>
   setupRouter (drop_unsupported cfg_put) = Inr [route_ping] \<and>
   setupRouter cfg_put = Inr [route_ping] \<and> [route_ping] = config_routes cfg_put \<and>
   rmethod route_ping = ''GET'' \<and>
   NewWatcher world_put_noitem = None \<and> Run world_put_noitem = None \<and>
   main world_put_noitem = Running server_put_noitem \<and>
   watch_failures world_put_noitem cfg_put =
     [''Failed to watch response file item.json: no such file or directory''] \<and>
   logs server_put_noitem =
     [''Failed to watch response file item.json: no such file or directory'']"
proof -
  note t = unsupported_method_skipped [OF load_world_put_noitem, of "[route_ping]"]
  have "setupRouter cfg_put = setupRouter (drop_unsupported cfg_put)"
    by (rule t [THEN conjunct1])
  then have d: "setupRouter (drop_unsupported cfg_put) = Inr [route_ping]"
    by (simp only: setupRouter_cfg_put)
  have n: "NewWatcher world_put_noitem = None" "Run world_put_noitem = None"
    by (simp_all add: world_put_noitem_def disk_world_def)
  have "[route_ping] = config_routes cfg_put \<and>
      (\<forall>rt\<in>set [route_ping]. rmethod rt = ''GET'' \<or> rmethod rt = ''POST'')"
    by (rule t [THEN conjunct2, THEN conjunct1, THEN mp]) (rule setupRouter_cfg_put)
  then have c: "[route_ping] = config_routes cfg_put"
    by (rule conjunct1)
  have "main world_put_noitem = Running
      \<lparr>config = cfg_put, router = [route_ping],
       watched = {f \<in> insert configFile (set (response_files cfg_put)).
                    WatcherAdd world_put_noitem f = None},
       logs = watch_failures world_put_noitem cfg_put, watching = True\<rparr>"
    by (rule t [THEN conjunct2, THEN conjunct2, THEN mp]) (intro conjI d n)
  then have "server_put_noitem =
      \<lparr>config = cfg_put, router = [route_ping],
       watched = {f \<in> insert configFile (set (response_files cfg_put)).
                    WatcherAdd world_put_noitem f = None},
       logs = watch_failures world_put_noitem cfg_put, watching = True\<rparr>"
    by (simp only: main_world_put_noitem proc.inject)
  then have "logs server_put_noitem =
      logs \<lparr>config = cfg_put, router = [route_ping],
       watched = {f \<in> insert configFile (set (response_files cfg_put)).
                    WatcherAdd world_put_noitem f = None},
       logs = watch_failures world_put_noitem cfg_put, watching = True\<rparr>"
    by (rule arg_cong)
  then have "logs server_put_noitem = watch_failures world_put_noitem cfg_put"
    by (simp only: server.select_convs)
  then have l: "watch_failures world_put_noitem cfg_put =
     [''Failed to watch response file item.json: no such file or directory'']"
    by (simp add: server_put_noitem_def)
  have g: "map Method (concat (map Endpoints (Services cfg_put))) = [''PUT'', ''GET'']"
    "rmethod route_ping = ''GET''"
    "logs server_put_noitem =
       [''Failed to watch response file item.json: no such file or directory'']"
    by (simp_all add: cfg_put_def route_ping_def server_put_noitem_def)
  show ?thesis
    using load_world_put_noitem d setupRouter_cfg_put c n main_world_put_noitem l g by simp
qed



text \<open>
  C9. When \<open>loadConfig\<close> fails at startup the process ends with the fatal message and
  never serves; when it fails in the same world during a reload, whatever the event, the
  process is still running afterwards, with the Config and the engine it had.
\<close>

theorem load_failure_fatal_only_at_startup:
  assumes "loadConfig w configFile = Inl err"
  shows "main w = Fatal (''Failed to load config: '' @ message err) \<and>
         (\<forall>s op name. \<exists>s'. step w (Running s) (Notify (Event op name)) = (Running s', None) \<and>
            config s' = config s \<and> router s' = router s)"
  using assms by (auto simp: main_def watcher_step_def)

theorem load_failure_fatal_only_at_startup_witness:
  "loadConfig world_bad configFile = Inl (Err ''yaml: did not find expected node content'') \<and>
   main world_bad = Fatal ''Failed to load config: yaml: did not find expected node content'' \<and>
   (\<exists>s'. step world_bad (Running server_ping) write_config = (Running s', None) \<and>
      config s' = cfg_ping \<and> router s' = [route_ping])"
proof -
  note t = load_failure_fatal_only_at_startup [OF load_world_bad]
  from t have m: "main world_bad =
      Fatal ''Failed to load config: yaml: did not find expected node content''"
    by simp
  from t have "\<exists>s'. step world_bad (Running server_ping) (Notify (Event Write ''./config.yaml'')) =
        (Running s', None) \<and> config s' = config server_ping \<and> router s' = router server_ping"
    by blast
  then have "\<exists>s'. step world_bad (Running server_ping) write_config = (Running s', None) \<and>
      config s' = cfg_ping \<and> router s' = [route_ping]"
    by (simp add: write_config_def server_ping_def)
  with m load_world_bad show ?thesis by blast
qed

text \<open>
  C10. The goroutine reacts to the Write bit alone. An event whose Op has the Write bit
  reloads \<^verbatim>\<open>./config.yaml\<close> whatever the name of the file of the event; an event whose Op is
  Create, Remove, Rename or Chmod, or any Op without the Write bit, leaves the state as it
  is, log included.
\<close>

theorem only_write_events_reload:
  assumes "watching s"
  shows "(op AND Write = Write \<longrightarrow>
            (\<exists>s'. step w (Running s) (Notify (Event op name)) = (Running s', None) \<and>
               config s' = (case loadConfig w configFile of
                              Inl err \<Rightarrow> config s
                            | Inr newConfig \<Rightarrow> newConfig))) \<and>
         (op \<in> {Create, Remove, Rename, Chmod} \<longrightarrow>
            step w (Running s) (Notify (Event op name)) = (Running s, None)) \<and>
         (op AND Write = 0 \<longrightarrow>
            step w (Running s) (Notify (Event op name)) = (Running s, None))"
proof -
  have a: "op AND Write = Write \<longrightarrow>
            (\<exists>s'. step w (Running s) (Notify (Event op name)) = (Running s', None) \<and>
               config s' = (case loadConfig w configFile of
                              Inl err \<Rightarrow> config s
                            | Inr newConfig \<Rightarrow> newConfig))"
    using assms by (auto simp: watcher_step_def split: sum.splits)
  have c: "op AND Write = 0 \<longrightarrow>
            step w (Running s) (Notify (Event op name)) = (Running s, None)"
    using assms by (auto simp: watcher_step_def Write_def)
  have "op \<in> {Create, Remove, Rename, Chmod} \<longrightarrow> op AND Write = 0"
    by (auto simp: Create_def Remove_def Rename_def Chmod_def Write_def)
  with c have b: "op \<in> {Create, Remove, Rename, Chmod} \<longrightarrow>
            step w (Running s) (Notify (Event op name)) = (Running s, None)"
    by blast
  show ?thesis using a b c by blast
qed

theorem only_write_events_reload_witness:
  "watching server_ping \<and> Write AND Write = Write \<and>
   (\<exists>s'. step world_pong (Running server_ping) (Notify (Event Write ''ping.json'')) =
            (Running s', None) \<and> config s' = cfg_pong) \<and>
   Rename \<in> {Create, Remove, Rename, Chmod} \<and> Rename AND Write = 0 \<and>
   step world_pong (Running server_ping) (Notify (Event Rename ''./config.yaml'')) =
     (Running server_ping, None)"
proof -
  have w: "watching server_ping" by (simp add: server_ping_def)
  have b: "Rename AND Write = 0" by (simp add: Rename_def Write_def)
  have r: "\<exists>s'. step world_pong (Running server_ping) (Notify (Event Write ''ping.json'')) =
            (Running s', None) \<and> config s' = cfg_pong"
    using only_write_events_reload [OF w, of Write world_pong "''ping.json''"] load_world_pong
    by simp
  have n: "step world_pong (Running server_ping) (Notify (Event Rename ''./config.yaml'')) =
     (Running server_ping, None)"
    using only_write_events_reload [OF w, of Rename world_pong "''./config.yaml''"] b
    by simp
  show ?thesis using w r n b by simp
qed

end
